theory Spec2Isabelle
  imports Complex_Main "HOL-Library.AList"
begin

section \<open>Values exchanged with the printer\<close>

text \<open>
  The payloads of the printer's REST interface are JSON documents, which Python reads as
  \<open>None\<close>, \<open>bool\<close>, \<open>int\<close>, \<open>float\<close>, \<open>str\<close>, \<open>list\<close> and \<open>dict\<close>. A dict is
  an association list in insertion order; a well-formed one has distinct keys. The
  number of a \<open>JFloat\<close> is the decimal value of the literal: the functions below only
  pass such values on.
\<close>

datatype json =
    JNull
  | JBool bool
  | JInt int
  | JFloat rat
  | JStr string
  | JArr "json list"
  | JObj "(string \<times> json) list"

text \<open>Python's truth value of an object, as \<open>if x\<close> and \<open>not x\<close> test it.\<close>

fun truthy :: "json \<Rightarrow> bool" where
  "truthy JNull = False"
| "truthy (JBool b) = b"
| "truthy (JInt n) = (n \<noteq> 0)"
| "truthy (JFloat r) = (r \<noteq> 0)"
| "truthy (JStr s) = (s \<noteq> [])"
| "truthy (JArr xs) = (xs \<noteq> [])"
| "truthy (JObj kvs) = (kvs \<noteq> [])"

text \<open>The exceptions (all subclasses of \<open>Exception\<close>) that the modelled code can meet.\<close>

datatype error =
    HTTPError int
  | ConnectionError
  | JSONDecodeError
  | KeyError string
  | TypeError
  | AttributeError
  | ValueError
  | RuntimeError

text \<open>\<open>d[k]\<close> on a parsed document: only a dict can be indexed by a string.\<close>

fun subscript :: "json \<Rightarrow> string \<Rightarrow> error + json" where
  "subscript (JObj kvs) k = (case map_of kvs k of None \<Rightarrow> Inl (KeyError k) | Some v \<Rightarrow> Inr v)"
| "subscript _ k = Inl TypeError"

text \<open>\<open>d.get(k, default)\<close>: only a dict has the method \<open>get\<close>.\<close>

fun get_default :: "json \<Rightarrow> string \<Rightarrow> json \<Rightarrow> error + json" where
  "get_default (JObj kvs) k d = (case map_of kvs k of None \<Rightarrow> Inr d | Some v \<Rightarrow> Inr v)"
| "get_default _ k d = Inl AttributeError"

text \<open>\<open>d.get(k)\<close> is \<open>d.get(k, None)\<close>.\<close>

definition get_key :: "json \<Rightarrow> string \<Rightarrow> error + json" where
  "get_key d k = get_default d k JNull"

text \<open>
  A \<open>requests.Response\<close>: the status code and the body as \<open>json()\<close> decodes it
  (\<open>None\<close> when the body is not a JSON document).
\<close>

record response =
  status_code :: int
  body :: "json option"

text \<open>\<open>Response.raise_for_status()\<close> raises for the client and server error codes.\<close>

definition raise_for_status :: "response \<Rightarrow> error + unit" where
  "raise_for_status resp =
     (if 400 \<le> status_code resp \<and> status_code resp < 600
      then Inl (HTTPError (status_code resp)) else Inr ())"

definition json_of :: "response \<Rightarrow> error + json" where
  "json_of resp = (case body resp of None \<Rightarrow> Inl JSONDecodeError | Some d \<Rightarrow> Inr d)"

text \<open>
  The \<open>PrusaLinkPy.PrusaLinkPy\<close> object held by the client: what each of its requests
  yields, a response or the exception of a failed exchange.
\<close>

record PrusaLinkPy =
  get_status :: "error + response"
  get_job :: "error + response"
  get_printer :: "error + response"
  stop_print :: "error + response"
  pause_print :: "error + response"

record PrusaLinkPyClient =
  client :: PrusaLinkPy

section \<open>The shared data model\<close>

text \<open>
  Modelled from the spec: the classes \<open>JobInfoResponse\<close>, \<open>TemperatureReading\<close>,
  \<open>PrinterTemperatures\<close> and \<open>PrinterState\<close> of the module \<open>models\<close> are not among the
  sources. Their fields are those of the spec's data model and of the keyword arguments
  the clients pass; a constructor stores its arguments as they are (the field
  validation of the model classes is not modelled).
\<close>

record Progress =
  completion :: json
  printTime :: json
  printTimeLeft :: json

record JobInfoResponse =
  job :: json
  progress :: Progress
  state :: json

record TemperatureReading =
  actual :: json
  target :: json

record PrinterTemperatures =
  nozzle_actual :: json
  nozzle_target :: json
  bed_actual :: json
  bed_target :: json

record PrinterState =
  jobInfoResponse :: "JobInfoResponse option"
  temperatureReading :: PrinterTemperatures

text \<open>\<open>TemperatureReading(**value)\<close> for a dict \<open>value\<close>; an absent keyword is \<open>None\<close>.\<close>

definition TemperatureReading_of :: "(string \<times> json) list \<Rightarrow> TemperatureReading" where
  "TemperatureReading_of value =
     \<lparr>actual = (case map_of value ''actual'' of None \<Rightarrow> JNull | Some v \<Rightarrow> v),
      target = (case map_of value ''target'' of None \<Rightarrow> JNull | Some v \<Rightarrow> v)\<rparr>"

section \<open>The PrusaLink client\<close>

text \<open>Sequencing of fallible steps: the first exception ends the computation.\<close>

definition bind_err :: "error + 'a \<Rightarrow> ('a \<Rightarrow> error + 'b) \<Rightarrow> error + 'b" where
  "bind_err m f = (case m of Inl e \<Rightarrow> Inl e | Inr x \<Rightarrow> f x)"

definition get_job_info :: "PrusaLinkPyClient \<Rightarrow> error + JobInfoResponse" where
  "get_job_info self =
     bind_err (get_status (client self)) (\<lambda>status_resp.
     bind_err (raise_for_status status_resp) (\<lambda>_.
     bind_err (json_of status_resp) (\<lambda>status_data.
     bind_err (get_job (client self)) (\<lambda>job_resp.
     bind_err (raise_for_status job_resp) (\<lambda>_.
     bind_err (json_of job_resp) (\<lambda>job_data.
     bind_err (subscript status_data ''job'') (\<lambda>progress_info.
     bind_err (get_default job_data ''job'' (JObj [])) (\<lambda>job_details.
     bind_err (get_key progress_info ''progress'') (\<lambda>c.
     bind_err (get_key progress_info ''time_printing'') (\<lambda>pt.
     bind_err (get_key progress_info ''time_remaining'') (\<lambda>ptl.
     bind_err (get_default status_data ''printer'' (JObj [])) (\<lambda>printer.
     bind_err (get_key printer ''state'') (\<lambda>st.
       Inr \<lparr>job = job_details,
            progress = \<lparr>completion = c, printTime = pt, printTimeLeft = ptl\<rparr>,
            state = st\<rparr>)))))))))))))"

definition cancel_job :: "PrusaLinkPyClient \<Rightarrow> error + unit" where
  "cancel_job self =
     bind_err (stop_print (client self)) (\<lambda>resp.
       if status_code resp = 204 then Inr () else raise_for_status resp)"

definition pause_job :: "PrusaLinkPyClient \<Rightarrow> error + unit" where
  "pause_job self =
     bind_err (pause_print (client self)) (\<lambda>resp.
       if status_code resp = 204 then Inr () else raise_for_status resp)"

text \<open>
  The loop of \<open>get_printer_temperatures\<close> over \<open>temp_data.items()\<close>: an entry whose
  value is a dict with the key \<open>actual\<close> is stored under its key, any other is skipped.
\<close>

fun is_reading :: "json \<Rightarrow> bool" where
  "is_reading (JObj value) = (''actual'' \<in> set (map fst value))"
| "is_reading _ = False"

fun reading_of :: "json \<Rightarrow> TemperatureReading" where
  "reading_of (JObj value) = TemperatureReading_of value"
| "reading_of _ = TemperatureReading_of []"

fun collect_readings ::
  "(string \<times> json) list \<Rightarrow> (string \<times> TemperatureReading) list \<Rightarrow> (string \<times> TemperatureReading) list"
where
  "collect_readings [] readings = readings"
| "collect_readings ((key, value) # items) readings =
     (if is_reading value
      then collect_readings items (AList.update key (reading_of value) readings)
      else collect_readings items readings)"

text \<open>\<open>temp_data.items()\<close>: only a dict has the method.\<close>

fun items_of :: "json \<Rightarrow> error + (string \<times> json) list" where
  "items_of (JObj kvs) = Inr kvs"
| "items_of _ = Inl AttributeError"

definition get_printer_temperatures ::
  "PrusaLinkPyClient \<Rightarrow> error + (string \<times> TemperatureReading) list" where
  "get_printer_temperatures self =
     bind_err (get_printer (client self)) (\<lambda>resp.
       if status_code resp = 409 then Inr []
       else
         bind_err (raise_for_status resp) (\<lambda>_.
         bind_err (json_of resp) (\<lambda>data.
         bind_err (get_default data ''temperature'' (JObj [])) (\<lambda>temp_data.
           if \<not> truthy temp_data then Inr []
           else bind_err (items_of temp_data) (\<lambda>items.
             Inr (collect_readings items []))))))"

definition zero_temps :: PrinterTemperatures where
  "zero_temps = \<lparr>nozzle_actual = JFloat 0, nozzle_target = JFloat 0,
                 bed_actual = JFloat 0, bed_target = JFloat 0\<rparr>"

text \<open>
  \<open>nozzle_and_bed_temps\<close> returns a dict with the four keys of \<open>PrinterTemperatures\<close>;
  the record stands for that dict.
\<close>

definition nozzle_and_bed_temps :: "PrusaLinkPyClient \<Rightarrow> error + PrinterTemperatures" where
  "nozzle_and_bed_temps self =
     bind_err (get_printer_temperatures self) (\<lambda>temps.
       if temps = [] then Inr zero_temps
       else
         let tool0 = map_of temps ''tool0''; bed = map_of temps ''bed'' in
         Inr \<lparr>nozzle_actual = (case tool0 of Some t \<Rightarrow> actual t | None \<Rightarrow> JFloat 0),
              nozzle_target = (case tool0 of Some t \<Rightarrow> target t | None \<Rightarrow> JFloat 0),
              bed_actual = (case bed of Some t \<Rightarrow> actual t | None \<Rightarrow> JFloat 0),
              bed_target = (case bed of Some t \<Rightarrow> target t | None \<Rightarrow> JFloat 0)\<rparr>)"

definition get_printer_state :: "PrusaLinkPyClient \<Rightarrow> error + PrinterState" where
  "get_printer_state self =
     bind_err (get_printer_temperatures self) (\<lambda>temperature_readings.
       let tool0_temp = map_of temperature_readings ''tool0'';
           bed_temp = map_of temperature_readings ''bed'';
           printer_temps =
             \<lparr>nozzle_actual = (case tool0_temp of Some t \<Rightarrow> actual t | None \<Rightarrow> JNull),
              nozzle_target = (case tool0_temp of Some t \<Rightarrow> target t | None \<Rightarrow> JNull),
              bed_actual = (case bed_temp of Some t \<Rightarrow> actual t | None \<Rightarrow> JNull),
              bed_target = (case bed_temp of Some t \<Rightarrow> target t | None \<Rightarrow> JNull)\<rparr>;
           job_info = (case get_job_info self of Inl _ \<Rightarrow> None | Inr j \<Rightarrow> Some j)
       in Inr \<lparr>jobInfoResponse = job_info, temperatureReading = printer_temps\<rparr>)"

section \<open>Printer utilities\<close>

text \<open>
  Modelled from the spec: the enums \<open>PrinterType\<close> and \<open>AlertAction\<close> of the module
  \<open>models\<close> are not among the sources. \<open>OCTOPRINT\<close>, \<open>PRUSALINKPY\<close>, \<open>CANCEL_PRINT\<close>
  and \<open>PAUSE_PRINT\<close> are the members the source names; \<open>OTHER_TYPE\<close> and
  \<open>OTHER_ACTION\<close> stand for the members an enum may declare besides them.
\<close>

datatype PrinterType = OCTOPRINT | PRUSALINKPY | OTHER_TYPE string

datatype AlertAction = CANCEL_PRINT | PAUSE_PRINT | OTHER_ACTION string

text \<open>
  What the utilities see of a client object, whatever its class: the outcome of each
  method they call on it.
\<close>

record printer_client =
  client_get_job_info :: "error + JobInfoResponse"
  client_cancel_job :: "error + unit"
  client_pause_job :: "error + unit"
  client_get_printer_state :: "error + PrinterState"

definition PrusaLinkPyClient_methods :: "PrusaLinkPyClient \<Rightarrow> printer_client" where
  "PrusaLinkPyClient_methods self =
     \<lparr>client_get_job_info = get_job_info self,
      client_cancel_job = cancel_job self,
      client_pause_job = pause_job self,
      client_get_printer_state = get_printer_state self\<rparr>"

datatype client_class = OctoPrintClient_class | PrusaLinkPyClient_class

definition CLIENT_FACTORY :: "(PrinterType \<times> client_class) list" where
  "CLIENT_FACTORY =
     [(OCTOPRINT, OctoPrintClient_class),
      (PRUSALINKPY, PrusaLinkPyClient_class)]"

text \<open>
  Modelled from the spec: the camera-state store (\<open>camera_utils\<close>), the configuration
  store (\<open>config\<close>), the class \<open>OctoPrintClient\<close> and the value table of the enum
  \<open>PrinterType\<close> are not among the sources, and the library \<open>PrusaLinkPy\<close> is external.
  They are parameters of the utilities: \<open>PrinterType_of v\<close> is the member whose value is
  \<open>v\<close>, if there is one; a constructor yields the client or the exception it raises.
\<close>

record camera_state =
  printer_config :: "(string \<times> json) list option"

record collaborators =
  get_camera_state_sync :: "string \<Rightarrow> error + camera_state option"
  PrinterType_of :: "json \<Rightarrow> PrinterType option"
  OctoPrintClient_new :: "json \<Rightarrow> json \<Rightarrow> error + printer_client"
  PrusaLinkPy_new :: "json \<Rightarrow> json \<Rightarrow> error + PrusaLinkPy"
  get_config :: "error + (string \<times> json) list"
  SavedConfig_PRINTER_STAT_POLLING_RATE_MS :: string
  PRINTER_STAT_POLLING_RATE_MS :: json

datatype level = DEBUG | WARNING | ERROR

datatype client_call = GetJobInfo | CancelJob | PauseJob | GetPrinterState

text \<open>What a utility does besides returning: log records, calls of the client's methods,
  pushes to the state sink, sleeps, and the registration of a polling task.\<close>

datatype effect =
    Log level
  | Invoke client_call
  | Push PrinterState
  | Sleep rat
  | AddPollingTask string printer_client rat

definition get_printer_config ::
  "collaborators \<Rightarrow> string \<Rightarrow> error + (string \<times> json) list option" where
  "get_printer_config env camera_uuid =
     bind_err (get_camera_state_sync env camera_uuid) (\<lambda>cs.
       case cs of
         None \<Rightarrow> Inr None
       | Some camera_state \<Rightarrow>
           (case printer_config camera_state of
              None \<Rightarrow> Inr None
            | Some cfg \<Rightarrow> if cfg \<noteq> [] then Inr (Some cfg) else Inr None))"

text \<open>\<open>printer_config.get(k)\<close> on the configuration dict.\<close>

definition config_get :: "(string \<times> json) list \<Rightarrow> string \<Rightarrow> json" where
  "config_get cfg k = (case map_of cfg k of None \<Rightarrow> JNull | Some v \<Rightarrow> v)"

text \<open>
  \<open>PrinterType(printer_type_str) if printer_type_str else PrinterType.OCTOPRINT\<close>: the
  call of an enum class with a value that no member has raises \<open>ValueError\<close>.
\<close>

definition printer_type_of :: "collaborators \<Rightarrow> (string \<times> json) list \<Rightarrow> error + PrinterType" where
  "printer_type_of env cfg =
     (let printer_type_str = config_get cfg ''printer_type'' in
      if truthy printer_type_str
      then (case PrinterType_of env printer_type_str of
              None \<Rightarrow> Inl ValueError
            | Some t \<Rightarrow> Inr t)
      else Inr OCTOPRINT)"

text \<open>\<open>client_class(base_url, api_key)\<close>.\<close>

definition construct ::
  "collaborators \<Rightarrow> client_class \<Rightarrow> json \<Rightarrow> json \<Rightarrow> error + printer_client" where
  "construct env cls base_url api_key =
     (case cls of
        OctoPrintClient_class \<Rightarrow> OctoPrintClient_new env base_url api_key
      | PrusaLinkPyClient_class \<Rightarrow>
          bind_err (PrusaLinkPy_new env base_url api_key) (\<lambda>c.
            Inr (PrusaLinkPyClient_methods \<lparr>client = c\<rparr>)))"

text \<open>The \<open>try\<close> block of \<open>suspend_print_job\<close>, for the client it has built.\<close>

definition suspend_with :: "printer_client \<Rightarrow> AlertAction \<Rightarrow> (error + bool) \<times> effect list" where
  "suspend_with c action =
     (case client_get_job_info c of
        Inl e \<Rightarrow> (Inr False, [Invoke GetJobInfo, Log ERROR])
      | Inr job_info \<Rightarrow>
          if state job_info \<notin> set [JStr ''Printing'', JStr ''PRINTING'']
          then (Inr True, [Invoke GetJobInfo, Log DEBUG])
          else
            (case action of
               CANCEL_PRINT \<Rightarrow>
                 (case client_cancel_job c of
                    Inl e \<Rightarrow> (Inr False, [Invoke GetJobInfo, Invoke CancelJob, Log ERROR])
                  | Inr _ \<Rightarrow> (Inr True, [Invoke GetJobInfo, Invoke CancelJob, Log DEBUG]))
             | PAUSE_PRINT \<Rightarrow>
                 (case client_pause_job c of
                    Inl e \<Rightarrow> (Inr False, [Invoke GetJobInfo, Invoke PauseJob, Log ERROR])
                  | Inr _ \<Rightarrow> (Inr True, [Invoke GetJobInfo, Invoke PauseJob, Log DEBUG]))
             | OTHER_ACTION _ \<Rightarrow> (Inr True, [Invoke GetJobInfo])))"

text \<open>
  \<open>suspend_print_job\<close>: the value returned, or the exception that leaves the function,
  and what it did on the way.
\<close>

definition suspend_print_job ::
  "collaborators \<Rightarrow> string \<Rightarrow> AlertAction \<Rightarrow> (error + bool) \<times> effect list" where
  "suspend_print_job env camera_uuid action =
     (case get_printer_config env camera_uuid of
        Inl e \<Rightarrow> (Inl e, [])
      | Inr None \<Rightarrow> (Inr False, [Log ERROR])
      | Inr (Some cfg) \<Rightarrow>
          (case printer_type_of env cfg of
             Inl e \<Rightarrow> (Inl e, [])
           | Inr printer_type \<Rightarrow>
               (case map_of CLIENT_FACTORY printer_type of
                  None \<Rightarrow> (Inr False, [Log ERROR])
                | Some cls \<Rightarrow>
                    (case construct env cls (config_get cfg ''base_url'') (config_get cfg ''api_key'') of
                       Inl e \<Rightarrow> (Inl e, [])
                     | Inr c \<Rightarrow> suspend_with c action))))"

text \<open>
  \<open>float(config.get(key, default) / 1000)\<close>: the division is defined for numbers
  (a \<open>bool\<close> is one) and raises \<open>TypeError\<close> for any other object.
\<close>

fun div_1000 :: "json \<Rightarrow> error + rat" where
  "div_1000 (JInt n) = Inr (of_int n / 1000)"
| "div_1000 (JFloat r) = Inr (r / 1000)"
| "div_1000 (JBool b) = Inr ((if b then 1 else 0) / 1000)"
| "div_1000 _ = Inl TypeError"

definition polling_rate :: "collaborators \<Rightarrow> error + rat" where
  "polling_rate env =
     bind_err (get_config env) (\<lambda>config.
       div_1000 (case map_of config (SavedConfig_PRINTER_STAT_POLLING_RATE_MS env) of
                   None \<Rightarrow> PRINTER_STAT_POLLING_RATE_MS env
                 | Some v \<Rightarrow> v))"

text \<open>
  \<open>start_printer_state_polling\<close> returns nothing: the result is the exception that
  leaves it, if any, and its effects. The task it creates is named by the client and
  the interval the polling loop gets.
\<close>

definition start_printer_state_polling ::
  "collaborators \<Rightarrow> string \<Rightarrow> (error + unit) \<times> effect list" where
  "start_printer_state_polling env camera_uuid =
     (case get_printer_config env camera_uuid of
        Inl e \<Rightarrow> (Inl e, [])
      | Inr None \<Rightarrow> (Inr (), [Log WARNING])
      | Inr (Some cfg) \<Rightarrow>
          (case polling_rate env of
             Inl e \<Rightarrow> (Inl e, [])
           | Inr printer_polling_rate \<Rightarrow>
               (case printer_type_of env cfg of
                  Inl e \<Rightarrow> (Inl e, [])
                | Inr printer_type \<Rightarrow>
                    (case map_of CLIENT_FACTORY printer_type of
                       None \<Rightarrow> (Inr (), [Log ERROR])
                     | Some cls \<Rightarrow>
                         (case construct env cls (config_get cfg ''base_url'')
                                 (config_get cfg ''api_key'') of
                            Inl e \<Rightarrow> (Inl e, [])
                          | Inr c \<Rightarrow>
                              (Inr (), [AddPollingTask camera_uuid c printer_polling_rate,
                                        Log DEBUG]))))))"

section \<open>The polling loop\<close>

text \<open>
  The loop runs against a world that changes between iterations. Iterations are counted
  from 0: \<open>is_set i\<close> is what \<open>stop_event.is_set()\<close> answers at the loop test before
  iteration \<open>i\<close>, \<open>client_at i\<close> holds the outcomes of the client's methods during
  iteration \<open>i\<close>, and \<open>sse_update_printer_state i s\<close> is the outcome of publishing \<open>s\<close>
  then.
\<close>

record world =
  is_set :: "nat \<Rightarrow> bool"
  client_at :: "nat \<Rightarrow> printer_client"
  sse_update_printer_state :: "nat \<Rightarrow> PrinterState \<Rightarrow> error + unit"

text \<open>The body of the loop: the \<open>try\<close> statement, then the sleep.\<close>

definition poll_once :: "world \<Rightarrow> rat \<Rightarrow> nat \<Rightarrow> effect list" where
  "poll_once w interval i =
     (case client_get_printer_state (client_at w i) of
        Inl e \<Rightarrow> [Invoke GetPrinterState, Log WARNING, Sleep interval]
      | Inr current_printer_state \<Rightarrow>
          (case sse_update_printer_state w i current_printer_state of
             Inl e \<Rightarrow> [Invoke GetPrinterState, Push current_printer_state, Log WARNING,
                       Sleep interval]
           | Inr _ \<Rightarrow> [Invoke GetPrinterState, Push current_printer_state, Sleep interval]))"

text \<open>
  \<open>poll_printer_state_func\<close> from iteration \<open>i\<close> on, with the effects so far: the
  effects of the whole run when the loop ends, \<open>None\<close> when it never does.
\<close>

partial_function (option) poll_printer_state_func ::
  "world \<Rightarrow> rat \<Rightarrow> nat \<Rightarrow> effect list \<Rightarrow> effect list option" where
  "poll_printer_state_func w interval i effects =
     (if is_set w i then Some effects
      else poll_printer_state_func w interval (Suc i) (effects @ poll_once w interval i))"

text \<open>Whether an effect is a push to the state sink.\<close>

fun is_push :: "effect \<Rightarrow> bool" where
  "is_push (Push s) = True"
| "is_push _ = False"

section \<open>Sample inputs\<close>

text \<open>Responses and payloads at which the properties below are evaluated.\<close>

definition ok_response :: "json \<Rightarrow> error + response" where
  "ok_response d = Inr \<lparr>status_code = 200, body = Some d\<rparr>"

definition status_only :: "int \<Rightarrow> error + response" where
  "status_only code = Inr \<lparr>status_code = code, body = None\<rparr>"

definition status_payload :: json where
  "status_payload = JObj
     [(''job'', JObj [(''progress'', JFloat (42 / 100)), (''time_printing'', JInt 100),
                      (''time_remaining'', JInt 50)]),
      (''printer'', JObj [(''state'', JStr ''PRINTING'')])]"

definition job_payload :: json where
  "job_payload = JObj [(''job'', JObj [(''file'', JObj [(''name'', JStr ''x.gcode'')])])]"

definition idle_payload :: json where
  "idle_payload = JObj [(''printer'', JObj [(''state'', JStr ''IDLE'')])]"

definition chamber_only :: json where
  "chamber_only = JObj [(''temperature'',
     JObj [(''chamber'', JObj [(''actual'', JFloat 25), (''target'', JFloat 0)])])]"

definition nozzle_and_bed :: json where
  "nozzle_and_bed = JObj [(''temperature'',
     JObj [(''tool0'', JObj [(''actual'', JFloat 215), (''target'', JFloat 220)]),
           (''bed'', JObj [(''actual'', JFloat 60), (''target'', JFloat 60)])])]"

text \<open>
  Temperature objects with entries of three shapes: a bare number, a dict without the
  key \<open>actual\<close>, and a dict with it.
\<close>

definition mixed_temperature :: "(string \<times> json) list" where
  "mixed_temperature =
     [(''tool0'', JFloat (215 / 10)),
      (''fan'', JObj [(''rpm'', JInt 3000)]),
      (''bed'', JObj [(''actual'', JInt 60)])]"

definition no_reading_temperature :: "(string \<times> json) list" where
  "no_reading_temperature =
     [(''tool0'', JFloat (215 / 10)), (''fan'', JObj [(''rpm'', JInt 3000)])]"

text \<open>A printer in the middle of a print, and an idle one, answering \<open>get_printer\<close> with \<open>r\<close>.\<close>

definition printing_printer :: "error + response \<Rightarrow> PrusaLinkPyClient" where
  "printing_printer r =
     \<lparr>client = \<lparr>get_status = ok_response status_payload, get_job = ok_response job_payload,
                 get_printer = r, stop_print = status_only 204,
                 pause_print = status_only 204\<rparr>\<rparr>"

definition idle_printer :: "error + response \<Rightarrow> PrusaLinkPyClient" where
  "idle_printer r =
     \<lparr>client = \<lparr>get_status = ok_response idle_payload, get_job = status_only 204,
                 get_printer = r, stop_print = status_only 409,
                 pause_print = status_only 409\<rparr>\<rparr>"

definition two_types :: "json \<Rightarrow> PrinterType option" where
  "two_types v =
     (if v = JStr ''octoprint'' then Some OCTOPRINT
      else if v = JStr ''prusalink'' then Some PRUSALINKPY
      else None)"

definition three_types :: "json \<Rightarrow> PrinterType option" where
  "three_types v =
     (if v = JStr ''moonraker'' then Some (OTHER_TYPE ''MOONRAKER'') else two_types v)"

definition sample_config :: "json \<Rightarrow> (string \<times> json) list" where
  "sample_config t =
     [(''printer_type'', t), (''base_url'', JStr ''printer.local''),
      (''api_key'', JStr ''secret''), (''name'', JStr ''mk4'')]"

text \<open>
  Collaborators that know the camera \<open>cam-1\<close>, configured with the printer type \<open>t\<close>;
  \<open>octo\<close> and \<open>prusa\<close> are what the two constructors yield.
\<close>

definition sample_env ::
  "(json \<Rightarrow> PrinterType option) \<Rightarrow> json \<Rightarrow> error + printer_client \<Rightarrow> error + PrusaLinkPy
     \<Rightarrow> collaborators" where
  "sample_env types t octo prusa =
     \<lparr>get_camera_state_sync =
        (\<lambda>uuid. if uuid = ''cam-1''
                 then Inr (Some \<lparr>printer_config = Some (sample_config t)\<rparr>)
                 else Inr None),
      PrinterType_of = types,
      OctoPrintClient_new = (\<lambda>base_url api_key. octo),
      PrusaLinkPy_new = (\<lambda>base_url api_key. prusa),
      get_config = Inr [],
      SavedConfig_PRINTER_STAT_POLLING_RATE_MS = ''printer_stat_polling_rate_ms'',
      PRINTER_STAT_POLLING_RATE_MS = JInt 2000\<rparr>"

definition operational_job :: JobInfoResponse where
  "operational_job =
     \<lparr>job = JObj [],
      progress = \<lparr>completion = JNull, printTime = JNull, printTimeLeft = JNull\<rparr>,
      state = JStr ''Operational''\<rparr>"

definition sample_state :: PrinterState where
  "sample_state =
     \<lparr>jobInfoResponse = Some operational_job,
      temperatureReading = \<lparr>nozzle_actual = JFloat 21, nozzle_target = JFloat 0,
                            bed_actual = JFloat 21, bed_target = JFloat 0\<rparr>\<rparr>"

definition operational_octoprint :: printer_client where
  "operational_octoprint =
     \<lparr>client_get_job_info = Inr operational_job,
      client_cancel_job = Inr (),
      client_pause_job = Inr (),
      client_get_printer_state = Inr sample_state\<rparr>"

definition unreachable_octoprint :: printer_client where
  "unreachable_octoprint =
     \<lparr>client_get_job_info = Inl ConnectionError,
      client_cancel_job = Inl ConnectionError,
      client_pause_job = Inl ConnectionError,
      client_get_printer_state = Inl ConnectionError\<rparr>"

text \<open>
  A world in which the first poll fails, the later ones succeed, and the stop signal
  is set during the second sleep.
\<close>

definition sample_world :: world where
  "sample_world =
     \<lparr>is_set = (\<lambda>i. 2 \<le> i),
      client_at = (\<lambda>i. if i = 0 then unreachable_octoprint else operational_octoprint),
      sse_update_printer_state = (\<lambda>i s. Inr ())\<rparr>"

section \<open>Auxiliary facts\<close>

lemma bind_err_simps:
  "bind_err (Inl e) f = Inl e"
  "bind_err (Inr x) f = f x"
  by (simp_all add: bind_err_def)

lemmas sample_defs = ok_response_def status_only_def status_payload_def job_payload_def
  idle_payload_def printing_printer_def idle_printer_def

lemmas env_defs = sample_env_def sample_config_def two_types_def three_types_def
  get_printer_config_def printer_type_of_def config_get_def construct_def CLIENT_FACTORY_def

lemma map_of_collect_readings:
  "distinct (map fst items) \<Longrightarrow>
   map_of (collect_readings items readings) k =
     (case map_of items k of
        Some v \<Rightarrow> if is_reading v then Some (reading_of v) else map_of readings k
      | None \<Rightarrow> map_of readings k)"
proof (induction items arbitrary: readings)
  case Nil
  then show ?case by simp
next
  case (Cons kv items)
  obtain key v where kv: "kv = (key, v)" by (cases kv)
  from Cons.prems kv have d: "distinct (map fst items)" and nk: "key \<notin> fst ` set items"
    by auto
  from nk have none: "map_of items key = None"
    by (simp add: map_of_eq_None_iff)
  show ?case
    using Cons.IH [OF d] none kv
    by (auto simp: update_conv split: option.splits)
qed

lemma collect_readings_none:
  "\<forall>v \<in> snd ` set items. \<not> is_reading v \<Longrightarrow> collect_readings items readings = readings"
  by (induction items arbitrary: readings) auto

lemma is_reading_iff:
  "is_reading v \<longleftrightarrow> (\<exists>d a. v = JObj d \<and> map_of d ''actual'' = Some a)"
proof (cases v)
  case (JObj d)
  have "''actual'' \<in> fst ` set d \<longleftrightarrow> map_of d ''actual'' \<noteq> None"
    by (simp add: map_of_eq_None_iff)
  with JObj show ?thesis by auto
qed simp_all

lemma TemperatureReading_of_actual:
  "map_of d ''actual'' = Some a \<Longrightarrow>
   TemperatureReading_of d =
     \<lparr>actual = a, target = (case map_of d ''target'' of None \<Rightarrow> JNull | Some t \<Rightarrow> t)\<rparr>"
  by (simp add: TemperatureReading_of_def)

lemma temps_chamber_only:
  "get_printer_temperatures (printing_printer (ok_response chamber_only)) =
     Inr [(''chamber'', \<lparr>actual = JFloat 25, target = JFloat 0\<rparr>)]"
  by (simp add: sample_defs chamber_only_def get_printer_temperatures_def bind_err_simps
      raise_for_status_def json_of_def TemperatureReading_of_def)

lemma temps_nozzle_and_bed:
  "get_printer_temperatures (idle_printer (ok_response nozzle_and_bed)) =
     Inr [(''tool0'', \<lparr>actual = JFloat 215, target = JFloat 220\<rparr>),
          (''bed'', \<lparr>actual = JFloat 60, target = JFloat 60\<rparr>)]"
  by (simp add: sample_defs nozzle_and_bed_def get_printer_temperatures_def bind_err_simps
      raise_for_status_def json_of_def TemperatureReading_of_def)

lemma temps_conflict:
  "get_printer_temperatures (idle_printer (status_only 409)) = Inr []"
  by (simp add: sample_defs get_printer_temperatures_def bind_err_simps)

lemma temps_unavailable:
  "get_printer_temperatures (printing_printer (status_only 503)) = Inl (HTTPError 503)"
  by (simp add: sample_defs get_printer_temperatures_def bind_err_simps raise_for_status_def)

lemma job_info_printing:
  "get_job_info (printing_printer r) =
     Inr \<lparr>job = JObj [(''file'', JObj [(''name'', JStr ''x.gcode'')])],
          progress = \<lparr>completion = JFloat (42 / 100), printTime = JInt 100,
                      printTimeLeft = JInt 50\<rparr>,
          state = JStr ''PRINTING''\<rparr>"
  by (simp add: sample_defs get_job_info_def bind_err_simps raise_for_status_def json_of_def
      get_key_def)

lemma job_info_idle: "get_job_info (idle_printer r) = Inl JSONDecodeError"
  by (simp add: sample_defs get_job_info_def bind_err_simps raise_for_status_def json_of_def)

section \<open>The PrusaLink client: properties\<close>

text \<open>
  C1, as the code has it. \<open>get_printer_state\<close> fetches the temperatures outside its
  \<open>try\<close> statement: an exception of \<open>get_printer_temperatures\<close> leaves
  \<open>get_printer_state\<close> unchanged. When the temperatures are returned,
  \<open>get_printer_state\<close> returns a state whatever \<open>get_job_info\<close> does: its
  \<open>jobInfoResponse\<close> is absent exactly when \<open>get_job_info\<close> raised, and holds the job
  information otherwise; its \<open>temperatureReading\<close> is built from the \<open>tool0\<close> and
  \<open>bed\<close> readings.
\<close>

theorem get_printer_state_swallows_job_errors:
  "(\<forall>e. get_printer_temperatures self = Inl e \<longrightarrow> get_printer_state self = Inl e) \<and>
   (\<forall>temps. get_printer_temperatures self = Inr temps \<longrightarrow>
      (\<exists>st. get_printer_state self = Inr st \<and>
            (jobInfoResponse st = None \<longleftrightarrow> isl (get_job_info self)) \<and>
            (\<forall>j. get_job_info self = Inr j \<longrightarrow> jobInfoResponse st = Some j) \<and>
            temperatureReading st =
              \<lparr>nozzle_actual = (case map_of temps ''tool0'' of Some t \<Rightarrow> actual t | None \<Rightarrow> JNull),
               nozzle_target = (case map_of temps ''tool0'' of Some t \<Rightarrow> target t | None \<Rightarrow> JNull),
               bed_actual = (case map_of temps ''bed'' of Some t \<Rightarrow> actual t | None \<Rightarrow> JNull),
               bed_target = (case map_of temps ''bed'' of Some t \<Rightarrow> target t | None \<Rightarrow> JNull)\<rparr>))"
  by (auto simp: get_printer_state_def bind_err_simps Let_def split: sum.splits)

text \<open>
  The theorem at an idle printer that reports its temperatures (the job fetch fails, the
  state is returned without job information) and at a printer whose temperature request
  is answered with 503 (the error leaves \<open>get_printer_state\<close>).
\<close>

theorem get_printer_state_swallows_job_errors_witness:
  "get_printer_temperatures (idle_printer (ok_response nozzle_and_bed)) =
     Inr [(''tool0'', \<lparr>actual = JFloat 215, target = JFloat 220\<rparr>),
          (''bed'', \<lparr>actual = JFloat 60, target = JFloat 60\<rparr>)] \<and>
   get_job_info (idle_printer (ok_response nozzle_and_bed)) = Inl JSONDecodeError \<and>
   get_printer_state (idle_printer (ok_response nozzle_and_bed)) =
     Inr \<lparr>jobInfoResponse = None,
          temperatureReading = \<lparr>nozzle_actual = JFloat 215, nozzle_target = JFloat 220,
                                bed_actual = JFloat 60, bed_target = JFloat 60\<rparr>\<rparr> \<and>
   get_printer_temperatures (idle_printer (status_only 503)) = Inl (HTTPError 503) \<and>
   get_printer_state (idle_printer (status_only 503)) = Inl (HTTPError 503)"
proof -
  have t: "get_printer_temperatures (idle_printer (status_only 503)) = Inl (HTTPError 503)"
    by (simp add: sample_defs get_printer_temperatures_def bind_err_simps raise_for_status_def)
  from get_printer_state_swallows_job_errors [of "idle_printer (ok_response nozzle_and_bed)"]
  obtain st where st: "get_printer_state (idle_printer (ok_response nozzle_and_bed)) = Inr st"
    and "jobInfoResponse st = None"
    and "temperatureReading st =
           \<lparr>nozzle_actual = JFloat 215, nozzle_target = JFloat 220,
            bed_actual = JFloat 60, bed_target = JFloat 60\<rparr>"
    by (auto simp: temps_nozzle_and_bed job_info_idle)
  then have "st = \<lparr>jobInfoResponse = None,
          temperatureReading = \<lparr>nozzle_actual = JFloat 215, nozzle_target = JFloat 220,
                                bed_actual = JFloat 60, bed_target = JFloat 60\<rparr>\<rparr>"
    by simp
  with st t get_printer_state_swallows_job_errors [of "idle_printer (status_only 503)"]
  show ?thesis
    by (simp add: temps_nozzle_and_bed job_info_idle)
qed

text \<open>
  C1 as stated fails: a printer in the middle of a print answers the temperature request
  with 503; the job information can be fetched, and \<open>get_printer_state\<close> raises.
\<close>

theorem get_printer_state_raises_counterexample:
  "get_job_info (printing_printer (status_only 503)) =
     Inr \<lparr>job = JObj [(''file'', JObj [(''name'', JStr ''x.gcode'')])],
          progress = \<lparr>completion = JFloat (42 / 100), printTime = JInt 100,
                      printTimeLeft = JInt 50\<rparr>,
          state = JStr ''PRINTING''\<rparr> \<and>
   get_printer_state (printing_printer (status_only 503)) = Inl (HTTPError 503)"
  by (simp add: job_info_printing temps_unavailable get_printer_state_def bind_err_simps)

text \<open>
  C4, as the code has it. When \<open>get_printer_temperatures\<close> returns the empty mapping,
  \<open>nozzle_and_bed_temps\<close> returns 0.0 for all four values; when it returns a non-empty
  mapping, each of the four values is taken from the \<open>tool0\<close> or \<open>bed\<close> reading and is
  0.0 where that reading is missing. So a mapping without \<open>tool0\<close> and \<open>bed\<close>, empty
  or not, gives 0.0 four times.
\<close>

theorem nozzle_and_bed_temps_defaults:
  assumes "get_printer_temperatures self = Inr temps"
  shows "(temps = [] \<longrightarrow> nozzle_and_bed_temps self = Inr zero_temps) \<and>
         (temps \<noteq> [] \<longrightarrow> nozzle_and_bed_temps self = Inr
            \<lparr>nozzle_actual = (case map_of temps ''tool0'' of Some t \<Rightarrow> actual t | None \<Rightarrow> JFloat 0),
             nozzle_target = (case map_of temps ''tool0'' of Some t \<Rightarrow> target t | None \<Rightarrow> JFloat 0),
             bed_actual = (case map_of temps ''bed'' of Some t \<Rightarrow> actual t | None \<Rightarrow> JFloat 0),
             bed_target = (case map_of temps ''bed'' of Some t \<Rightarrow> target t | None \<Rightarrow> JFloat 0)\<rparr>) \<and>
         (map_of temps ''tool0'' = None \<and> map_of temps ''bed'' = None \<longrightarrow>
            nozzle_and_bed_temps self = Inr zero_temps)"
  using assms
  by (simp add: nozzle_and_bed_temps_def bind_err_simps zero_temps_def Let_def)

theorem nozzle_and_bed_temps_defaults_witness:
  "get_printer_temperatures (idle_printer (status_only 409)) = Inr [] \<and>
   nozzle_and_bed_temps (idle_printer (status_only 409)) = Inr zero_temps \<and>
   get_printer_temperatures (idle_printer (ok_response nozzle_and_bed)) =
     Inr [(''tool0'', \<lparr>actual = JFloat 215, target = JFloat 220\<rparr>),
          (''bed'', \<lparr>actual = JFloat 60, target = JFloat 60\<rparr>)] \<and>
   nozzle_and_bed_temps (idle_printer (ok_response nozzle_and_bed)) =
     Inr \<lparr>nozzle_actual = JFloat 215, nozzle_target = JFloat 220,
          bed_actual = JFloat 60, bed_target = JFloat 60\<rparr>"
  using nozzle_and_bed_temps_defaults [OF temps_conflict]
    nozzle_and_bed_temps_defaults [OF temps_nozzle_and_bed]
  by (simp add: temps_conflict temps_nozzle_and_bed)

text \<open>
  C4 as stated fails in the direction from the zeros to the empty mapping: a printer
  that reports a chamber temperature only has a non-empty mapping of readings, and
  \<open>nozzle_and_bed_temps\<close> returns 0.0 four times.
\<close>

theorem nozzle_and_bed_temps_zero_counterexample:
  "get_printer_temperatures (printing_printer (ok_response chamber_only)) =
     Inr [(''chamber'', \<lparr>actual = JFloat 25, target = JFloat 0\<rparr>)] \<and>
   nozzle_and_bed_temps (printing_printer (ok_response chamber_only)) = Inr zero_temps"
  by (simp add: temps_chamber_only nozzle_and_bed_temps_def bind_err_simps zero_temps_def)

text \<open>
  C7. \<open>get_job_info\<close> merges the two responses. When the status request and the job
  request are both answered without an error status, with a dict each, the status dict
  holding a dict under \<open>job\<close> and a dict (or nothing) under \<open>printer\<close>, the result
  takes its \<open>job\<close> from the job response (its \<open>job\<close> entry, or an empty dict), its
  progress from the \<open>progress\<close>, \<open>time_printing\<close> and \<open>time_remaining\<close> entries of the
  status response's \<open>job\<close>, and its state from the \<open>state\<close> entry of the status
  response's \<open>printer\<close>; an entry that is missing is \<open>None\<close>.
\<close>

theorem get_job_info_merges_status_and_job:
  assumes "get_status (client self) = Inr status_resp"
    and "\<not> (400 \<le> status_code status_resp \<and> status_code status_resp < 600)"
    and "body status_resp = Some (JObj status_data)"
    and "get_job (client self) = Inr job_resp"
    and "\<not> (400 \<le> status_code job_resp \<and> status_code job_resp < 600)"
    and "body job_resp = Some (JObj job_data)"
    and "map_of status_data ''job'' = Some (JObj progress_info)"
    and "map_of status_data ''printer'' = Some (JObj printer) \<or>
         map_of status_data ''printer'' = None \<and> printer = []"
  shows "get_job_info self =
     Inr \<lparr>job = (case map_of job_data ''job'' of None \<Rightarrow> JObj [] | Some j \<Rightarrow> j),
          progress =
            \<lparr>completion = (case map_of progress_info ''progress'' of None \<Rightarrow> JNull | Some v \<Rightarrow> v),
             printTime = (case map_of progress_info ''time_printing'' of None \<Rightarrow> JNull | Some v \<Rightarrow> v),
             printTimeLeft =
               (case map_of progress_info ''time_remaining'' of None \<Rightarrow> JNull | Some v \<Rightarrow> v)\<rparr>,
          state = (case map_of printer ''state'' of None \<Rightarrow> JNull | Some s \<Rightarrow> s)\<rparr>"
proof -
  have printer: "get_default (JObj status_data) ''printer'' (JObj []) = Inr (JObj printer)"
    using assms(8) by (elim disjE conjE) simp_all
  have job: "get_default (JObj job_data) ''job'' (JObj []) =
      Inr (case map_of job_data ''job'' of None \<Rightarrow> JObj [] | Some j \<Rightarrow> j)"
    by (simp split: option.splits)
  have entry: "get_key (JObj d) k = Inr (case map_of d k of None \<Rightarrow> JNull | Some v \<Rightarrow> v)"
    for d k
    by (simp add: get_key_def split: option.splits)
  from assms(1-7) show ?thesis
    by (simp add: get_job_info_def bind_err_simps raise_for_status_def json_of_def
        printer job entry del: get_default.simps)
qed

text \<open>
  The theorem at the scenario of the spec: the status response and the job response,
  both with status 200, give the \<open>JobInfoResponse\<close> the spec states.
\<close>

theorem get_job_info_merges_status_and_job_witness:
  "get_job_info
     \<lparr>client =
        \<lparr>get_status = Inr \<lparr>status_code = 200, body = Some (JObj
           [(''job'', JObj [(''progress'', JFloat (42 / 100)), (''time_printing'', JInt 100),
                            (''time_remaining'', JInt 50)]),
            (''printer'', JObj [(''state'', JStr ''PRINTING'')])])\<rparr>,
         get_job = Inr \<lparr>status_code = 200, body = Some (JObj
           [(''job'', JObj [(''file'', JObj [(''name'', JStr ''x.gcode'')])])])\<rparr>,
         get_printer = Inr \<lparr>status_code = 409, body = None\<rparr>,
         stop_print = Inr \<lparr>status_code = 204, body = None\<rparr>,
         pause_print = Inr \<lparr>status_code = 204, body = None\<rparr>\<rparr>\<rparr>
   = Inr \<lparr>job = JObj [(''file'', JObj [(''name'', JStr ''x.gcode'')])],
          progress = \<lparr>completion = JFloat (42 / 100), printTime = JInt 100,
                      printTimeLeft = JInt 50\<rparr>,
          state = JStr ''PRINTING''\<rparr>"
  using get_job_info_merges_status_and_job [of "\<lparr>client =
        \<lparr>get_status = Inr \<lparr>status_code = 200, body = Some (JObj
           [(''job'', JObj [(''progress'', JFloat (42 / 100)), (''time_printing'', JInt 100),
                            (''time_remaining'', JInt 50)]),
            (''printer'', JObj [(''state'', JStr ''PRINTING'')])])\<rparr>,
         get_job = Inr \<lparr>status_code = 200, body = Some (JObj
           [(''job'', JObj [(''file'', JObj [(''name'', JStr ''x.gcode'')])])])\<rparr>,
         get_printer = Inr \<lparr>status_code = 409, body = None\<rparr>,
         stop_print = Inr \<lparr>status_code = 204, body = None\<rparr>,
         pause_print = Inr \<lparr>status_code = 204, body = None\<rparr>\<rparr>\<rparr>"
      "\<lparr>status_code = 200, body = Some (JObj
           [(''job'', JObj [(''progress'', JFloat (42 / 100)), (''time_printing'', JInt 100),
                            (''time_remaining'', JInt 50)]),
            (''printer'', JObj [(''state'', JStr ''PRINTING'')])])\<rparr>"
      "[(''job'', JObj [(''progress'', JFloat (42 / 100)), (''time_printing'', JInt 100),
                            (''time_remaining'', JInt 50)]),
            (''printer'', JObj [(''state'', JStr ''PRINTING'')])]"
      "\<lparr>status_code = 200, body = Some (JObj
           [(''job'', JObj [(''file'', JObj [(''name'', JStr ''x.gcode'')])])])\<rparr>"
      "[(''job'', JObj [(''file'', JObj [(''name'', JStr ''x.gcode'')])])]"
      "[(''progress'', JFloat (42 / 100)), (''time_printing'', JInt 100),
                            (''time_remaining'', JInt 50)]"
      "[(''state'', JStr ''PRINTING'')]"]
  by simp

text \<open>
  C9. When the printer answers the temperature request with status 409,
  \<open>get_printer_temperatures\<close> returns the empty mapping; with any other client or
  server error status (400 to 599) it fails with the \<open>HTTPError\<close> of that status.
\<close>

theorem get_printer_temperatures_conflict_or_error:
  assumes "get_printer (client self) = Inr resp"
  shows "(status_code resp = 409 \<longrightarrow> get_printer_temperatures self = Inr []) \<and>
         (status_code resp \<noteq> 409 \<and> 400 \<le> status_code resp \<and> status_code resp < 600 \<longrightarrow>
            get_printer_temperatures self = Inl (HTTPError (status_code resp)))"
  using assms
  by (simp add: get_printer_temperatures_def bind_err_simps raise_for_status_def)

theorem get_printer_temperatures_conflict_or_error_witness:
  "get_printer (client (idle_printer (status_only 409))) =
     Inr \<lparr>status_code = 409, body = None\<rparr> \<and>
   get_printer_temperatures (idle_printer (status_only 409)) = Inr [] \<and>
   get_printer (client (idle_printer (status_only 404))) =
     Inr \<lparr>status_code = 404, body = None\<rparr> \<and>
   get_printer_temperatures (idle_printer (status_only 404)) = Inl (HTTPError 404)"
  using get_printer_temperatures_conflict_or_error
      [of "idle_printer (status_only 409)" "\<lparr>status_code = 409, body = None\<rparr>"]
    get_printer_temperatures_conflict_or_error
      [of "idle_printer (status_only 404)" "\<lparr>status_code = 404, body = None\<rparr>"]
  by (simp add: sample_defs)

text \<open>
  C10. For a response that is neither a 409 nor an error status, whose payload is a dict
  with a dict under \<open>temperature\<close>, \<open>get_printer_temperatures\<close> returns a mapping that
  has a reading under a key exactly when the temperature object has, under that key, a
  dict with an entry \<open>actual\<close>; the reading holds that entry and the dict's \<open>target\<close>
  (\<open>None\<close> when it has none). Entries of any other shape are dropped: when no entry is
  a dict with the key \<open>actual\<close>, the mapping returned is empty whatever the
  temperature object holds.
\<close>

theorem get_printer_temperatures_keeps_readings:
  assumes "get_printer (client self) = Inr resp"
    and "status_code resp \<noteq> 409"
    and "\<not> (400 \<le> status_code resp \<and> status_code resp < 600)"
    and "body resp = Some (JObj data)"
    and "map_of data ''temperature'' = Some (JObj temp_data)"
    and "distinct (map fst temp_data)"
  shows "\<exists>readings. get_printer_temperatures self = Inr readings \<and>
           (\<forall>k r. map_of readings k = Some r \<longleftrightarrow>
              (\<exists>d a. map_of temp_data k = Some (JObj d) \<and>
                 map_of d ''actual'' = Some a \<and>
                 r = \<lparr>actual = a,
                      target = (case map_of d ''target'' of None \<Rightarrow> JNull | Some t \<Rightarrow> t)\<rparr>)) \<and>
           ((\<forall>k d. (k, JObj d) \<in> set temp_data \<longrightarrow> map_of d ''actual'' = None) \<longrightarrow>
              readings = [])"
proof -
  have run: "get_printer_temperatures self = Inr (collect_readings temp_data [])"
  proof (cases "temp_data = []")
    case True
    with assms show ?thesis
      by (simp add: get_printer_temperatures_def bind_err_simps raise_for_status_def json_of_def)
  next
    case False
    with assms show ?thesis
      by (simp add: get_printer_temperatures_def bind_err_simps raise_for_status_def json_of_def)
  qed
  have kept: "map_of (collect_readings temp_data []) k = Some r \<longleftrightarrow>
      (\<exists>d a. map_of temp_data k = Some (JObj d) \<and>
         map_of d ''actual'' = Some a \<and>
         r = \<lparr>actual = a,
              target = (case map_of d ''target'' of None \<Rightarrow> JNull | Some t \<Rightarrow> t)\<rparr>)"
    for k r
  proof (cases "map_of temp_data k")
    case None
    then show ?thesis
      using map_of_collect_readings [OF assms(6), of "[]" k] by simp
  next
    case (Some v)
    show ?thesis
    proof (cases "is_reading v")
      case True
      then obtain d a where v: "v = JObj d" and a: "map_of d ''actual'' = Some a"
        by (auto simp: is_reading_iff)
      from Some True v
      have "map_of (collect_readings temp_data []) k = Some (reading_of (JObj d))"
        using map_of_collect_readings [OF assms(6), of "[]" k] by simp
      with Some v a show ?thesis
        by (auto simp: TemperatureReading_of_actual)
    next
      case False
      with Some have "map_of (collect_readings temp_data []) k = None"
        using map_of_collect_readings [OF assms(6), of "[]" k] by simp
      moreover from False have "\<not> (\<exists>d a. v = JObj d \<and> map_of d ''actual'' = Some a)"
        by (simp add: is_reading_iff)
      ultimately show ?thesis
        using Some by auto
    qed
  qed
  have dropped: "collect_readings temp_data [] = []"
    if "\<forall>k d. (k, JObj d) \<in> set temp_data \<longrightarrow> map_of d ''actual'' = None"
  proof (rule collect_readings_none, rule ballI)
    fix v assume "v \<in> snd ` set temp_data"
    then obtain k where "(k, v) \<in> set temp_data" by auto
    with that show "\<not> is_reading v"
      by (auto simp: is_reading_iff)
  qed
  from run kept dropped show ?thesis by blast
qed

text \<open>
  The theorem at a temperature object with a bare number for \<open>tool0\<close>, a dict without
  \<open>actual\<close> for \<open>fan\<close> and a dict with \<open>actual\<close> for \<open>bed\<close> (only \<open>bed\<close> is kept),
  and at the object without the \<open>bed\<close> entry (nothing is kept).
\<close>

theorem get_printer_temperatures_keeps_readings_witness:
  "distinct (map fst mixed_temperature) \<and>
   map_of mixed_temperature ''tool0'' = Some (JFloat (215 / 10)) \<and>
   map_of mixed_temperature ''fan'' = Some (JObj [(''rpm'', JInt 3000)]) \<and>
   map_of mixed_temperature ''bed'' = Some (JObj [(''actual'', JInt 60)]) \<and>
   get_printer_temperatures (idle_printer
      (ok_response (JObj [(''temperature'', JObj mixed_temperature)]))) =
     Inr [(''bed'', \<lparr>actual = JInt 60, target = JNull\<rparr>)] \<and>
   no_reading_temperature \<noteq> [] \<and> distinct (map fst no_reading_temperature) \<and>
   get_printer_temperatures (idle_printer
      (ok_response (JObj [(''temperature'', JObj no_reading_temperature)]))) = Inr []"
proof -
  let ?mixed = "idle_printer (ok_response (JObj [(''temperature'', JObj mixed_temperature)]))"
  let ?none = "idle_printer (ok_response (JObj [(''temperature'', JObj no_reading_temperature)]))"
  have d1: "distinct (map fst mixed_temperature)"
    and d2: "distinct (map fst no_reading_temperature)"
    by (simp_all add: mixed_temperature_def no_reading_temperature_def)
  have m: "map_of mixed_temperature ''tool0'' = Some (JFloat (215 / 10))"
    "map_of mixed_temperature ''fan'' = Some (JObj [(''rpm'', JInt 3000)])"
    "map_of mixed_temperature ''bed'' = Some (JObj [(''actual'', JInt 60)])"
    by (simp_all add: mixed_temperature_def)
  have no: "\<forall>k d. (k, JObj d) \<in> set no_reading_temperature \<longrightarrow> map_of d ''actual'' = None"
    by (simp add: no_reading_temperature_def)
  have ne: "no_reading_temperature \<noteq> []"
    by (simp add: no_reading_temperature_def)
  from no get_printer_temperatures_keeps_readings
      [of ?none
          "\<lparr>status_code = 200, body = Some (JObj [(''temperature'', JObj no_reading_temperature)])\<rparr>"
          "[(''temperature'', JObj no_reading_temperature)]" no_reading_temperature,
       OF _ _ _ _ _ d2]
  have r2: "get_printer_temperatures ?none = Inr []"
    by (auto simp: sample_defs)
  from get_printer_temperatures_keeps_readings
      [of ?mixed
          "\<lparr>status_code = 200, body = Some (JObj [(''temperature'', JObj mixed_temperature)])\<rparr>"
          "[(''temperature'', JObj mixed_temperature)]" mixed_temperature,
       OF _ _ _ _ _ d1]
  obtain readings where run: "get_printer_temperatures ?mixed = Inr readings"
    and kept: "\<forall>k r. map_of readings k = Some r \<longleftrightarrow>
              (\<exists>d a. map_of mixed_temperature k = Some (JObj d) \<and> map_of d ''actual'' = Some a \<and>
                 r = \<lparr>actual = a,
                      target = (case map_of d ''target'' of None \<Rightarrow> JNull | Some t \<Rightarrow> t)\<rparr>)"
    by (auto simp: sample_defs)
  have "get_printer_temperatures ?mixed = Inr [(''bed'', \<lparr>actual = JInt 60, target = JNull\<rparr>)]"
    by (simp add: sample_defs mixed_temperature_def get_printer_temperatures_def bind_err_simps
        raise_for_status_def json_of_def TemperatureReading_of_def)
  with run kept d1 d2 m ne r2 show ?thesis
    by simp
qed

section \<open>Printer utilities: properties\<close>

lemma poll_loop_runs:
  "\<lbrakk>i \<le> N; \<forall>j. i \<le> j \<and> j < N \<longrightarrow> \<not> is_set w j; is_set w N\<rbrakk> \<Longrightarrow>
   poll_printer_state_func w interval i effects =
     Some (effects @ concat (map (poll_once w interval) [i..<N]))"
proof (induction "N - i" arbitrary: i effects)
  case 0
  then have "i = N" by simp
  with 0 show ?case
    by (subst poll_printer_state_func.simps) simp
next
  case (Suc d)
  then have lt: "i < N" and ns: "\<not> is_set w i" by auto
  have step: "poll_printer_state_func w interval (Suc i) (effects @ poll_once w interval i) =
      Some ((effects @ poll_once w interval i) @ concat (map (poll_once w interval) [Suc i..<N]))"
    using Suc.hyps(1) [of "Suc i" "effects @ poll_once w interval i"] Suc.hyps(2) Suc.prems lt
    by auto
  have "[i..<N] = i # [Suc i..<N]"
    using lt by (simp add: upt_conv_Cons)
  with step ns show ?case
    by (subst poll_printer_state_func.simps) simp
qed

lemma count_polls_once:
  "length (filter (\<lambda>e. e = Invoke GetPrinterState) (poll_once w interval i)) = Suc 0"
  by (simp add: poll_once_def split: sum.splits)

lemma count_sleeps_once:
  "length (filter (\<lambda>e. e = Sleep interval) (poll_once w interval i)) = Suc 0"
  by (simp add: poll_once_def split: sum.splits)

lemma count_pushes_once:
  "length (filter is_push (poll_once w interval i)) =
     (if isl (client_get_printer_state (client_at w i)) then 0 else 1)"
  by (simp add: poll_once_def isl_def split: sum.splits)

lemma count_concat:
  "length (filter P (concat (map f xs))) = sum_list (map (\<lambda>x. length (filter P (f x))) xs)"
  by (induction xs) simp_all

lemma sum_list_indicator:
  "sum_list (map (\<lambda>x. if Q x then 0 else (1::nat)) xs) = length (filter (\<lambda>x. \<not> Q x) xs)"
  by (induction xs) simp_all

lemma sum_list_ones: "sum_list (map (\<lambda>x. Suc 0) xs) = length xs"
  by (induction xs) simp_all

lemma sample_config_resolved:
  "get_printer_config (sample_env types t octo prusa) ''cam-1'' = Inr (Some (sample_config t))"
  "get_printer_config (sample_env types t octo prusa) ''cam-2'' = Inr None"
  by (simp_all add: sample_env_def sample_config_def get_printer_config_def bind_err_simps)

text \<open>
  What \<open>suspend_print_job\<close> does once the printer type is decoded: it returns \<open>False\<close>
  when the camera has no printer configuration and when no client is registered for the
  printer type, and with the client built it returns a boolean whatever the client does
  (an exception of the job-info fetch, or of the cancel or pause it dispatches, is turned
  into \<open>False\<close>).
\<close>

lemma suspend_print_job_returns_boolean:
  "(get_printer_config env camera_uuid = Inr None \<longrightarrow>
      suspend_print_job env camera_uuid action = (Inr False, [Log ERROR])) \<and>
   (get_printer_config env camera_uuid = Inr (Some cfg) \<and>
    printer_type_of env cfg = Inr printer_type \<longrightarrow>
      (map_of CLIENT_FACTORY printer_type = None \<longrightarrow>
         suspend_print_job env camera_uuid action = (Inr False, [Log ERROR])) \<and>
      (map_of CLIENT_FACTORY printer_type = Some cls \<and>
       construct env cls (config_get cfg ''base_url'') (config_get cfg ''api_key'') = Inr c \<longrightarrow>
         (\<exists>b. fst (suspend_print_job env camera_uuid action) = Inr b) \<and>
         (isl (client_get_job_info c) \<longrightarrow>
            fst (suspend_print_job env camera_uuid action) = Inr False) \<and>
         (\<not> isl (client_get_job_info c) \<and>
          state (projr (client_get_job_info c)) \<in> {JStr ''Printing'', JStr ''PRINTING''} \<longrightarrow>
            (action = CANCEL_PRINT \<and> isl (client_cancel_job c) \<longrightarrow>
               fst (suspend_print_job env camera_uuid action) = Inr False) \<and>
            (action = PAUSE_PRINT \<and> isl (client_pause_job c) \<longrightarrow>
               fst (suspend_print_job env camera_uuid action) = Inr False))))"
  by (cases action)
     (auto simp: suspend_print_job_def suspend_with_def isl_def split: sum.splits)

text \<open>
  The same at a camera without configuration, at a printer type without a registered
  client, and at an OctoPrint printer that cannot be reached.
\<close>

lemma suspend_print_job_returns_boolean_example:
  "get_printer_config (sample_env two_types (JStr ''octoprint'') (Inr unreachable_octoprint)
     (Inl ConnectionError)) ''cam-2'' = Inr None \<and>
   suspend_print_job (sample_env two_types (JStr ''octoprint'') (Inr unreachable_octoprint)
     (Inl ConnectionError)) ''cam-2'' PAUSE_PRINT = (Inr False, [Log ERROR]) \<and>
   printer_type_of (sample_env three_types (JStr ''moonraker'') (Inr unreachable_octoprint)
     (Inl ConnectionError)) (sample_config (JStr ''moonraker'')) = Inr (OTHER_TYPE ''MOONRAKER'') \<and>
   map_of CLIENT_FACTORY (OTHER_TYPE ''MOONRAKER'') = None \<and>
   suspend_print_job (sample_env three_types (JStr ''moonraker'') (Inr unreachable_octoprint)
     (Inl ConnectionError)) ''cam-1'' PAUSE_PRINT = (Inr False, [Log ERROR]) \<and>
   construct (sample_env two_types (JStr ''octoprint'') (Inr unreachable_octoprint)
     (Inl ConnectionError)) OctoPrintClient_class (JStr ''printer.local'') (JStr ''secret'')
       = Inr unreachable_octoprint \<and>
   isl (client_get_job_info unreachable_octoprint) \<and>
   fst (suspend_print_job (sample_env two_types (JStr ''octoprint'') (Inr unreachable_octoprint)
     (Inl ConnectionError)) ''cam-1'' PAUSE_PRINT) = Inr False"
proof -
  let ?octo = "sample_env two_types (JStr ''octoprint'') (Inr unreachable_octoprint)
     (Inl ConnectionError)"
  let ?moon = "sample_env three_types (JStr ''moonraker'') (Inr unreachable_octoprint)
     (Inl ConnectionError)"
  have none: "get_printer_config ?octo ''cam-2'' = Inr None"
    by (rule sample_config_resolved)
  have cfg_moon: "get_printer_config ?moon ''cam-1'' = Inr (Some (sample_config (JStr ''moonraker'')))"
    by (rule sample_config_resolved)
  have cfg_octo: "get_printer_config ?octo ''cam-1'' = Inr (Some (sample_config (JStr ''octoprint'')))"
    by (rule sample_config_resolved)
  have type_moon: "printer_type_of ?moon (sample_config (JStr ''moonraker'')) =
      Inr (OTHER_TYPE ''MOONRAKER'')"
    by (simp add: env_defs)
  have type_octo: "printer_type_of ?octo (sample_config (JStr ''octoprint'')) = Inr OCTOPRINT"
    by (simp add: env_defs)
  have unregistered: "map_of CLIENT_FACTORY (OTHER_TYPE ''MOONRAKER'') = None"
    by (simp add: CLIENT_FACTORY_def)
  have registered: "map_of CLIENT_FACTORY OCTOPRINT = Some OctoPrintClient_class"
    by (simp add: CLIENT_FACTORY_def)
  have built: "construct ?octo OctoPrintClient_class
      (config_get (sample_config (JStr ''octoprint'')) ''base_url'')
      (config_get (sample_config (JStr ''octoprint'')) ''api_key'') = Inr unreachable_octoprint"
    by (simp add: env_defs)
  have built': "construct ?octo OctoPrintClient_class (JStr ''printer.local'') (JStr ''secret'')
      = Inr unreachable_octoprint"
    by (simp add: env_defs)
  have fails: "isl (client_get_job_info unreachable_octoprint)"
    by (simp add: unreachable_octoprint_def)
  from none suspend_print_job_returns_boolean [of ?octo "''cam-2''" PAUSE_PRINT]
  have r1: "suspend_print_job ?octo ''cam-2'' PAUSE_PRINT = (Inr False, [Log ERROR])"
    by simp
  from cfg_moon type_moon unregistered
    suspend_print_job_returns_boolean
      [of ?moon "''cam-1''" PAUSE_PRINT "sample_config (JStr ''moonraker'')"
          "OTHER_TYPE ''MOONRAKER''"]
  have r2: "suspend_print_job ?moon ''cam-1'' PAUSE_PRINT = (Inr False, [Log ERROR])"
    by simp
  from cfg_octo type_octo registered built fails
    suspend_print_job_returns_boolean
      [of ?octo "''cam-1''" PAUSE_PRINT "sample_config (JStr ''octoprint'')" OCTOPRINT
          OctoPrintClient_class unreachable_octoprint]
  have r3: "fst (suspend_print_job ?octo ''cam-1'' PAUSE_PRINT) = Inr False"
    by simp
  from none type_moon unregistered built' fails r1 r2 r3 show ?thesis
    by simp
qed

text \<open>
  C2 at a failing input: the camera's configuration names a printer type that is no
  value of \<open>PrinterType\<close>. The enum call raises \<open>ValueError\<close> before the lookup in
  \<open>CLIENT_FACTORY\<close>, its guard and the \<open>try\<close> statement are reached:
  \<open>suspend_print_job\<close> raises instead of returning \<open>False\<close>, and logs nothing.
\<close>

theorem suspend_print_job_unknown_type_raises:
  "suspend_print_job
     (sample_env two_types (JStr ''klipper'') (Inr operational_octoprint) (Inl ConnectionError))
     ''cam-1'' CANCEL_PRINT = (Inl ValueError, [])"
  by (simp add: suspend_print_job_def env_defs bind_err_simps)

text \<open>
  The two early returns of \<open>start_printer_state_polling\<close>: without a printer
  configuration it logs a warning, and for a printer type without a registered client
  it logs an error; in both cases it returns without a polling task.
\<close>

lemma start_printer_state_polling_early_returns:
  "(get_printer_config env camera_uuid = Inr None \<longrightarrow>
      start_printer_state_polling env camera_uuid = (Inr (), [Log WARNING])) \<and>
   (get_printer_config env camera_uuid = Inr (Some cfg) \<and>
    polling_rate env = Inr rate \<and>
    printer_type_of env cfg = Inr printer_type \<and>
    map_of CLIENT_FACTORY printer_type = None \<longrightarrow>
      start_printer_state_polling env camera_uuid = (Inr (), [Log ERROR]))"
  by (simp add: start_printer_state_polling_def)

text \<open>
  C3 at a failing input: the camera's configuration names a printer type that is no
  value of \<open>PrinterType\<close>. The enum call raises \<open>ValueError\<close> before the lookup in
  \<open>CLIENT_FACTORY\<close> and its guard are reached: \<open>start_printer_state_polling\<close> raises,
  and nothing is logged.
\<close>

theorem start_printer_state_polling_unknown_type_raises:
  "start_printer_state_polling
     (sample_env two_types (JStr ''klipper'') (Inr operational_octoprint) (Inl ConnectionError))
     ''cam-1'' = (Inl ValueError, [])"
  by (simp add: start_printer_state_polling_def env_defs polling_rate_def bind_err_simps)

text \<open>
  C5. When the stop signal is set before the first iteration, the polling loop ends
  without an effect. When the signal is first seen set at the loop test after \<open>N\<close>
  iterations, the loop ends, and its effects are those of the \<open>N\<close> iterations in order:
  it has called \<open>get_printer_state\<close> \<open>N\<close> times, pushed once for each call that returned
  a state (a failed poll pushes nothing), and slept \<open>N\<close> times. No outcome of a poll or
  of a push ends the loop earlier.
\<close>

theorem poll_printer_state_func_cycles:
  "(is_set w 0 \<longrightarrow> poll_printer_state_func w interval 0 [] = Some []) \<and>
   ((\<forall>i<N. \<not> is_set w i) \<and> is_set w N \<longrightarrow>
      (\<exists>effects. poll_printer_state_func w interval 0 [] = Some effects \<and>
         effects = concat (map (poll_once w interval) [0..<N]) \<and>
         length (filter (\<lambda>e. e = Invoke GetPrinterState) effects) = N \<and>
         length (filter is_push effects) =
           length (filter (\<lambda>i. \<not> isl (client_get_printer_state (client_at w i))) [0..<N]) \<and>
         length (filter (\<lambda>e. e = Sleep interval) effects) = N))"
proof (intro conjI impI)
  assume "is_set w 0"
  then show "poll_printer_state_func w interval 0 [] = Some []"
    by (subst poll_printer_state_func.simps) simp
next
  assume a: "(\<forall>i<N. \<not> is_set w i) \<and> is_set w N"
  then have run: "poll_printer_state_func w interval 0 [] =
      Some (concat (map (poll_once w interval) [0..<N]))"
    using poll_loop_runs [of 0 N w interval "[]"] by simp
  have polls: "length (filter (\<lambda>e. e = Invoke GetPrinterState)
      (concat (map (poll_once w interval) [0..<N]))) = N"
    by (simp add: count_concat count_polls_once sum_list_ones)
  have sleeps: "length (filter (\<lambda>e. e = Sleep interval)
      (concat (map (poll_once w interval) [0..<N]))) = N"
    by (simp add: count_concat count_sleeps_once sum_list_ones)
  have pushes: "length (filter is_push (concat (map (poll_once w interval) [0..<N]))) =
      length (filter (\<lambda>i. \<not> isl (client_get_printer_state (client_at w i))) [0..<N])"
    by (simp only: count_concat count_pushes_once sum_list_indicator)
  from run polls sleeps pushes
  show "\<exists>effects. poll_printer_state_func w interval 0 [] = Some effects \<and>
         effects = concat (map (poll_once w interval) [0..<N]) \<and>
         length (filter (\<lambda>e. e = Invoke GetPrinterState) effects) = N \<and>
         length (filter is_push effects) =
           length (filter (\<lambda>i. \<not> isl (client_get_printer_state (client_at w i))) [0..<N]) \<and>
         length (filter (\<lambda>e. e = Sleep interval) effects) = N"
    by simp
qed

text \<open>
  The theorem in a world where the stop signal is seen after two iterations and the
  first poll fails: two polls, one push, two sleeps.
\<close>

theorem poll_printer_state_func_cycles_witness:
  "\<not> is_set sample_world 0 \<and> \<not> is_set sample_world 1 \<and> is_set sample_world 2 \<and>
   poll_printer_state_func sample_world 2 0 [] =
     Some [Invoke GetPrinterState, Log WARNING, Sleep 2,
           Invoke GetPrinterState, Push sample_state, Sleep 2]"
proof -
  have stop: "(\<forall>i<2. \<not> is_set sample_world i) \<and> is_set sample_world 2"
    by (simp add: sample_world_def)
  have two: "[0..<2] = [0, Suc 0]"
    by (simp add: upt_rec)
  from stop poll_printer_state_func_cycles [of sample_world 2 2]
  have "poll_printer_state_func sample_world 2 0 [] =
      Some (concat (map (poll_once sample_world 2) [0..<2]))"
    by simp
  then show ?thesis
    by (simp add: two poll_once_def sample_world_def unreachable_octoprint_def
        operational_octoprint_def)
qed



text \<open>
  C8. When \<open>suspend_print_job\<close> has built the client and fetched the job information:
  if the job state is neither \<open>Printing\<close> nor \<open>PRINTING\<close> it returns \<open>True\<close> and has
  called nothing but \<open>get_job_info\<close>; otherwise it calls \<open>cancel_job\<close> for
  \<open>CANCEL_PRINT\<close> and \<open>pause_job\<close> for \<open>PAUSE_PRINT\<close> (returning \<open>True\<close> when the
  call returns), and for any other action it returns \<open>True\<close> without a further call.
\<close>

theorem suspend_print_job_dispatch:
  assumes "get_printer_config env camera_uuid = Inr (Some cfg)"
    and "printer_type_of env cfg = Inr printer_type"
    and "map_of CLIENT_FACTORY printer_type = Some cls"
    and "construct env cls (config_get cfg ''base_url'') (config_get cfg ''api_key'') = Inr c"
    and "client_get_job_info c = Inr job_info"
  shows "(state job_info \<notin> {JStr ''Printing'', JStr ''PRINTING''} \<longrightarrow>
           suspend_print_job env camera_uuid action = (Inr True, [Invoke GetJobInfo, Log DEBUG])) \<and>
         (state job_info \<in> {JStr ''Printing'', JStr ''PRINTING''} \<longrightarrow>
           (action = CANCEL_PRINT \<longrightarrow>
              suspend_print_job env camera_uuid action =
                (Inr (\<not> isl (client_cancel_job c)),
                 [Invoke GetJobInfo, Invoke CancelJob,
                  Log (if isl (client_cancel_job c) then ERROR else DEBUG)])) \<and>
           (action = PAUSE_PRINT \<longrightarrow>
              suspend_print_job env camera_uuid action =
                (Inr (\<not> isl (client_pause_job c)),
                 [Invoke GetJobInfo, Invoke PauseJob,
                  Log (if isl (client_pause_job c) then ERROR else DEBUG)])) \<and>
           (action \<noteq> CANCEL_PRINT \<and> action \<noteq> PAUSE_PRINT \<longrightarrow>
              suspend_print_job env camera_uuid action = (Inr True, [Invoke GetJobInfo])))"
  using assms
  by (cases action)
     (auto simp: suspend_print_job_def suspend_with_def isl_def split: sum.splits)

text \<open>
  The theorem at the spec's scenario (an OctoPrint printer in state \<open>Operational\<close>,
  action \<open>CANCEL_PRINT\<close>: success, no cancel) and at a PrusaLink printer in state
  \<open>PRINTING\<close> with the same action (the cancel is issued).
\<close>

theorem suspend_print_job_dispatch_witness:
  "client_get_job_info operational_octoprint = Inr operational_job \<and>
   state operational_job = JStr ''Operational'' \<and>
   suspend_print_job
     (sample_env two_types (JStr ''octoprint'') (Inr operational_octoprint)
        (Inr (client (printing_printer (status_only 409)))))
     ''cam-1'' CANCEL_PRINT = (Inr True, [Invoke GetJobInfo, Log DEBUG]) \<and>
   suspend_print_job
     (sample_env two_types (JStr ''prusalink'') (Inr operational_octoprint)
        (Inr (client (printing_printer (status_only 409)))))
     ''cam-1'' CANCEL_PRINT = (Inr True, [Invoke GetJobInfo, Invoke CancelJob, Log DEBUG])"
proof -
  let ?prusa = "Inr (client (printing_printer (status_only 409)))"
  let ?env1 = "sample_env two_types (JStr ''octoprint'') (Inr operational_octoprint) ?prusa"
  let ?env2 = "sample_env two_types (JStr ''prusalink'') (Inr operational_octoprint) ?prusa"
  let ?c = "PrusaLinkPyClient_methods (printing_printer (status_only 409))"
  have cfg1: "get_printer_config ?env1 ''cam-1'' = Inr (Some (sample_config (JStr ''octoprint'')))"
    by (rule sample_config_resolved)
  have cfg2: "get_printer_config ?env2 ''cam-1'' = Inr (Some (sample_config (JStr ''prusalink'')))"
    by (rule sample_config_resolved)
  have type1: "printer_type_of ?env1 (sample_config (JStr ''octoprint'')) = Inr OCTOPRINT"
    by (simp add: env_defs)
  have type2: "printer_type_of ?env2 (sample_config (JStr ''prusalink'')) = Inr PRUSALINKPY"
    by (simp add: env_defs)
  have reg1: "map_of CLIENT_FACTORY OCTOPRINT = Some OctoPrintClient_class"
    by (simp add: CLIENT_FACTORY_def)
  have reg2: "map_of CLIENT_FACTORY PRUSALINKPY = Some PrusaLinkPyClient_class"
    by (simp add: CLIENT_FACTORY_def)
  have built1: "construct ?env1 OctoPrintClient_class
      (config_get (sample_config (JStr ''octoprint'')) ''base_url'')
      (config_get (sample_config (JStr ''octoprint'')) ''api_key'') = Inr operational_octoprint"
    by (simp add: env_defs)
  have built2: "construct ?env2 PrusaLinkPyClient_class
      (config_get (sample_config (JStr ''prusalink'')) ''base_url'')
      (config_get (sample_config (JStr ''prusalink'')) ''api_key'') = Inr ?c"
    by (simp add: env_defs bind_err_simps printing_printer_def)
  have job1: "client_get_job_info operational_octoprint = Inr operational_job"
    by (simp add: operational_octoprint_def)
  have st1: "state operational_job = JStr ''Operational''"
    by (simp add: operational_job_def)
  have job2: "client_get_job_info ?c =
     Inr \<lparr>job = JObj [(''file'', JObj [(''name'', JStr ''x.gcode'')])],
          progress = \<lparr>completion = JFloat (42 / 100), printTime = JInt 100,
                      printTimeLeft = JInt 50\<rparr>,
          state = JStr ''PRINTING''\<rparr>"
    by (simp add: PrusaLinkPyClient_methods_def job_info_printing)
  have cancel2: "client_cancel_job ?c = Inr ()"
    by (simp add: PrusaLinkPyClient_methods_def cancel_job_def sample_defs bind_err_simps)
  from st1 suspend_print_job_dispatch [OF cfg1 type1 reg1 built1 job1, of CANCEL_PRINT]
  have r1: "suspend_print_job ?env1 ''cam-1'' CANCEL_PRINT = (Inr True, [Invoke GetJobInfo, Log DEBUG])"
    by simp
  from cancel2 suspend_print_job_dispatch [OF cfg2 type2 reg2 built2 job2, of CANCEL_PRINT]
  have r2: "suspend_print_job ?env2 ''cam-1'' CANCEL_PRINT =
      (Inr True, [Invoke GetJobInfo, Invoke CancelJob, Log DEBUG])"
    by simp
  from job1 st1 r1 r2 show ?thesis
    by simp
qed

end
